theory Spec2Isabelle
  imports Main
begin

section \<open>Python values and text\<close>

text \<open>
  A Python \<open>str\<close> is a sequence of Unicode code points, so text is a list of code points
  here (a \<open>nat\<close> each), not a list of bytes: \<open>strip\<close> and \<open>upper\<close> work on code points,
  and a cell of a spreadsheet may well hold a no-break space (U+00A0) around its token.
  \<open>lit\<close> turns an ASCII literal of this file into such a list.
\<close>

type_synonym pystr = "nat list"

definition lit :: "string \<Rightarrow> pystr" where
  "lit s = map of_char s"

text \<open>
  The values that reach \<open>map_quartil_to_level\<close>: \<open>None\<close> (the default of \<open>row.get\<close>, and
  the manual form's empty choice), the NaN that pandas puts in an empty cell, a text
  cell, and any other object (a number, a timestamp), which the function only ever looks
  at through \<open>str(q)\<close> and which is therefore given by the text \<open>str\<close> returns for it.
\<close>

datatype pyval = PyNone | PyNaN | PyStr pystr | PyObj pystr

fun py_str :: "pyval \<Rightarrow> pystr" where
  "py_str PyNone = lit ''None''"
| "py_str PyNaN = lit ''nan''"
| "py_str (PyStr s) = s"
| "py_str (PyObj t) = t"

text \<open>
  \<open>str.isspace\<close> of one code point, as CPython's \<open>_PyUnicode_IsWhitespace\<close> lists them;
  \<open>str.strip()\<close> with no argument removes exactly these at both ends.
\<close>

definition py_isspace :: "nat \<Rightarrow> bool" where
  "py_isspace c \<longleftrightarrow>
     (0x09 \<le> c \<and> c \<le> 0x0D) \<or> (0x1C \<le> c \<and> c \<le> 0x20) \<or> c = 0x85 \<or> c = 0xA0 \<or>
     c = 0x1680 \<or> (0x2000 \<le> c \<and> c \<le> 0x200A) \<or> c = 0x2028 \<or> c = 0x2029 \<or>
     c = 0x202F \<or> c = 0x205F \<or> c = 0x3000"

definition py_strip :: "pystr \<Rightarrow> pystr" where
  "py_strip s = rev (dropWhile py_isspace (rev (dropWhile py_isspace s)))"

text \<open>
  \<open>str.upper()\<close> maps each code point to its full uppercase mapping (one to three code
  points) and concatenates. On ASCII that is \<open>a..z\<close> to \<open>A..Z\<close>; beyond ASCII it is a
  table of the Unicode database, which is not part of the repository: the functions
  below take it as the parameter \<open>uc\<close>.
\<close>

definition upper_char :: "(nat \<Rightarrow> pystr) \<Rightarrow> nat \<Rightarrow> pystr" where
  "upper_char uc c =
     (if 97 \<le> c \<and> c \<le> 122 then [c - 32] else if c < 128 then [c] else uc c)"

definition py_upper :: "(nat \<Rightarrow> pystr) \<Rightarrow> pystr \<Rightarrow> pystr" where
  "py_upper uc s = concat (map (upper_char uc) s)"

text \<open>
  What the Unicode table is known to satisfy, and all that the quartile rules need of
  it: the uppercase of a code point beyond ASCII is never empty and holds none of the
  characters \<open>Q\<close>, \<open>1\<close>, \<open>2\<close>, \<open>3\<close>, \<open>4\<close>.
\<close>

definition unicode_table :: "(nat \<Rightarrow> pystr) \<Rightarrow> bool" where
  "unicode_table uc \<longleftrightarrow>
     (\<forall>c. 128 \<le> c \<longrightarrow> uc c \<noteq> [] \<and> set (uc c) \<inter> {81, 49, 50, 51, 52} = {})"

section \<open>The classification rules\<close>

definition map_quartil_to_level :: "(nat \<Rightarrow> pystr) \<Rightarrow> pyval \<Rightarrow> pystr option" where
  "map_quartil_to_level uc q =
     (if q = PyNone then None
      else let s = py_upper uc (py_strip (py_str q)) in
        if s = lit ''Q1'' then Some (lit ''MB'')
        else if s = lit ''Q2'' then Some (lit ''B'')
        else if s = lit ''Q3'' then Some (lit ''R'')
        else if s = lit ''Q4'' then Some (lit ''F'')
        else None)"

definition ordem :: "pystr list" where
  "ordem = [lit ''MB'', lit ''B'', lit ''R'', lit ''F'']"

definition sem_classificacao :: pystr where
  "sem_classificacao = lit ''SEM_CLASSIFICACAO_JCR_SJR''"

text \<open>The \<open>for lvl in ordem\<close> loop with its early return, and the return after it.\<close>

fun classify_loop :: "pystr list \<Rightarrow> pystr option \<Rightarrow> pystr option \<Rightarrow> pystr" where
  "classify_loop [] jcr_level sjr_level = sem_classificacao"
| "classify_loop (lvl # rest) jcr_level sjr_level =
     (if jcr_level = Some lvl \<or> sjr_level = Some lvl then lvl
      else classify_loop rest jcr_level sjr_level)"

definition classify_journal :: "(nat \<Rightarrow> pystr) \<Rightarrow> pyval \<Rightarrow> pyval \<Rightarrow> pystr" where
  "classify_journal uc jcr_quartil sjr_quartil =
     (let jcr_level = map_quartil_to_level uc jcr_quartil;
          sjr_level = map_quartil_to_level uc sjr_quartil
      in classify_loop ordem jcr_level sjr_level)"

text \<open>The five labels in the order the application lists them (\<open>classes_order\<close>).\<close>

definition classes_order :: "pystr list" where
  "classes_order = [lit ''MB'', lit ''B'', lit ''R'', lit ''F'', lit ''SEM_CLASSIFICACAO_JCR_SJR'']"

section \<open>The loader\<close>

text \<open>
  A data frame: its column labels in order, and its rows, each the cells in column
  order. \<open>read_excel\<close> gives every column a label of its own, so labels do not repeat.
\<close>

record dataframe =
  columns :: "pyval list"
  rows :: "pyval list list"

text \<open>A data frame is rectangular: every row has one cell for each column.\<close>

definition well_formed :: "dataframe \<Rightarrow> bool" where
  "well_formed df \<longleftrightarrow> list_all (\<lambda>row. length row = length (columns df)) (rows df)"

text \<open>
  The three column labels the loader names. The classification label ends in the code
  points U+00E7 and U+00E3 before its final \<open>o\<close>.
\<close>

definition classificacao :: pyval where
  "classificacao = PyStr (lit ''Classifica'' @ [0xE7, 0xE3] @ lit ''o'')"

definition quartil_jcr :: pyval where
  "quartil_jcr = PyStr (lit ''Quartil_JCR'')"

definition sjr_quartil :: pyval where
  "sjr_quartil = PyStr (lit ''SJR_Quartil'')"

text \<open>\<open>row.get(key)\<close>: the cell under that label, \<open>None\<close> when the row has no such label.\<close>

definition row_get :: "pyval list \<Rightarrow> pyval list \<Rightarrow> pyval \<Rightarrow> pyval" where
  "row_get cols row key = (case map_of (zip cols row) key of None \<Rightarrow> PyNone | Some v \<Rightarrow> v)"

text \<open>A Python exception, by the name of its class.\<close>

datatype py_error = Raised pystr

text \<open>
  \<open>load_data\<close> reads a fixed file: its input is what \<open>pd.read_excel\<close> does there, an
  exception or a data frame. An exception leaves \<open>load_data\<close> as it is; the assignment
  \<open>df[label] = ...\<close> of a new label appends the column. The \<open>st.cache_data\<close> decorator
  only keeps the result for later calls and is left out. \<open>df.apply(..., axis=1)\<close> may
  hand the lambda a numerically widened copy of a numeric cell; a number never renders
  as a quartile token either way, so the model passes the cell itself.
\<close>

definition load_data :: "(nat \<Rightarrow> pystr) \<Rightarrow> py_error + dataframe \<Rightarrow> py_error + dataframe" where
  "load_data uc source =
     (case source of
        Inl e \<Rightarrow> Inl e
      | Inr df \<Rightarrow>
          if classificacao \<notin> set (columns df) then
            Inr (df\<lparr>columns := columns df @ [classificacao],
                    rows := map (\<lambda>row. row @ [PyStr (classify_journal uc
                                   (row_get (columns df) row quartil_jcr)
                                   (row_get (columns df) row sjr_quartil))]) (rows df)\<rparr>)
          else Inr df)"

section \<open>Conversions that fail\<close>





section \<open>The specification's reading of the rules\<close>

text \<open>
  The quartile token as the specification words it: a value that is not \<open>None\<close> and
  whose text is the letter \<open>Q\<close>, in either case, followed by the digit \<open>d\<close>, with nothing
  but whitespace before and after. The code points are written as numbers: \<open>81\<close> is
  \<open>Q\<close>, \<open>113\<close> is \<open>q\<close>, and \<open>49\<close> to \<open>52\<close> are the digits \<open>1\<close> to \<open>4\<close>.
\<close>

definition quartile_text :: "nat \<Rightarrow> pyval \<Rightarrow> bool" where
  "quartile_text d q \<longleftrightarrow>
     q \<noteq> PyNone \<and>
     (\<exists>l r c. py_str q = l @ [c, d] @ r \<and> list_all py_isspace l \<and> list_all py_isspace r \<and>
        (c = 81 \<or> c = 113))"

text \<open>
  The tier ordering of the specification, best first: the rank of a tier is its place in
  \<open>ordem\<close>, and the best of two opinions is the one of lower rank, an absent opinion
  losing to any tier.
\<close>

definition tier_rank :: "pystr \<Rightarrow> nat" where
  "tier_rank t = length (takeWhile (\<lambda>lvl. lvl \<noteq> t) ordem)"

fun best_tier :: "pystr option \<Rightarrow> pystr option \<Rightarrow> pystr" where
  "best_tier None None = sem_classificacao"
| "best_tier (Some a) None = a"
| "best_tier None (Some b) = b"
| "best_tier (Some a) (Some b) = (if tier_rank a \<le> tier_rank b then a else b)"

section \<open>Sample tables\<close>

text \<open>
  Three small tables: one with a title column only, one with the two quartile columns,
  and one that brings its own classification column, at odds with its quartiles.
\<close>

definition tabela_sem_quartis :: dataframe where
  "tabela_sem_quartis =
     \<lparr>columns = [PyStr (lit ''Titulo_JCR'')], rows = [[PyStr (lit ''Lancet'')]]\<rparr>"

definition tabela_quartis :: dataframe where
  "tabela_quartis =
     \<lparr>columns = [quartil_jcr, sjr_quartil],
      rows = [[PyStr (lit ''Q3''), PyStr (lit ''q1 '')], [PyNaN, PyStr (lit ''-'')]]\<rparr>"

definition tabela_classificada :: dataframe where
  "tabela_classificada =
     \<lparr>columns = [quartil_jcr, sjr_quartil, classificacao],
      rows = [[PyStr (lit ''Q1''), PyStr (lit ''Q1''), PyStr (lit ''A1'')]]\<rparr>"

section \<open>Text: stripping and upper-casing\<close>

lemma py_strip_decomp:
  "\<exists>l r. s = l @ py_strip s @ r \<and> list_all py_isspace l \<and> list_all py_isspace r"
proof -
  define t where "t = dropWhile py_isspace s"
  have s: "s = takeWhile py_isspace s @ t"
    by (simp add: t_def)
  have "rev (rev t) = rev (takeWhile py_isspace (rev t) @ dropWhile py_isspace (rev t))"
    by (simp only: takeWhile_dropWhile_id)
  then have "t = rev (dropWhile py_isspace (rev t)) @ rev (takeWhile py_isspace (rev t))"
    by (simp only: rev_append rev_rev_ident)
  then have t: "t = py_strip s @ rev (takeWhile py_isspace (rev t))"
    by (simp only: py_strip_def t_def)
  have l: "list_all py_isspace (takeWhile py_isspace s)"
    by (simp add: list_all_iff) (meson set_takeWhileD)
  have r: "list_all py_isspace (rev (takeWhile py_isspace (rev t)))"
    by (simp add: list_all_iff) (meson set_takeWhileD)
  from s t have "s = takeWhile py_isspace s @ py_strip s @ rev (takeWhile py_isspace (rev t))"
    by simp
  with l r show ?thesis by blast
qed

lemma py_strip_padded:
  assumes "list_all py_isspace l" "list_all py_isspace r"
    and "\<not> py_isspace c" "\<not> py_isspace d"
  shows "py_strip (l @ c # m @ d # r) = c # m @ [d]"
proof -
  have 1: "dropWhile py_isspace (l @ c # m @ d # r) = c # m @ d # r"
    using assms(1,3) by (simp add: dropWhile_append2 list_all_iff)
  have "rev (c # m @ d # r) = rev r @ d # rev m @ [c]"
    by simp
  moreover have "dropWhile py_isspace (rev r @ d # rev m @ [c]) = d # rev m @ [c]"
    using assms(2,4) by (subst dropWhile_append2) (auto simp: list_all_iff)
  ultimately show ?thesis
    by (simp add: py_strip_def 1)
qed

lemma upper_char_nonempty:
  "unicode_table uc \<Longrightarrow> upper_char uc c \<noteq> []"
  by (simp add: upper_char_def unicode_table_def)

lemma py_upper_Nil_iff:
  "unicode_table uc \<Longrightarrow> py_upper uc s = [] \<longleftrightarrow> s = []"
  by (cases s) (simp_all add: py_upper_def upper_char_nonempty)


lemma py_upper_Cons: "py_upper uc (c # s) = upper_char uc c @ py_upper uc s"
  by (simp add: py_upper_def)

lemma upper_char_Q:
  assumes "unicode_table uc" "upper_char uc c @ rest = 81 # tl'"
  shows "upper_char uc c = [81] \<and> (c = 81 \<or> c = 113) \<and> rest = tl'"
proof (cases "c < 128")
  case True
  with assms(2) show ?thesis
    by (auto simp: upper_char_def split: if_splits)
next
  case False
  with assms(1) have ne: "uc c \<noteq> []" and "81 \<notin> set (uc c)"
    by (auto simp: unicode_table_def)
  moreover from False have "upper_char uc c = uc c"
    by (simp add: upper_char_def)
  ultimately show ?thesis using assms(2)
    by (cases "uc c") auto
qed

lemma upper_char_digit:
  assumes "unicode_table uc" "upper_char uc c @ rest = d # tl'" "d \<in> {49, 50, 51, 52}"
  shows "c = d \<and> rest = tl'"
proof (cases "c < 128")
  case True
  with assms(2,3) show ?thesis
    by (auto simp: upper_char_def split: if_splits)
next
  case False
  with assms(1) have ne: "uc c \<noteq> []" and "set (uc c) \<inter> {81, 49, 50, 51, 52} = {}"
    by (auto simp: unicode_table_def)
  moreover from False have "upper_char uc c = uc c"
    by (simp add: upper_char_def)
  ultimately show ?thesis using assms(2,3)
    by (cases "uc c") auto
qed

lemma py_upper_quartile:
  assumes "unicode_table uc" "d \<in> {49, 50, 51, 52}"
  shows "py_upper uc t = [81, d] \<longleftrightarrow> t = [81, d] \<or> t = [113, d]"
proof
  assume u: "py_upper uc t = [81, d]"
  then obtain c t1 where t: "t = c # t1"
    by (cases t) (auto simp: py_upper_def)
  with u have "upper_char uc c @ py_upper uc t1 = 81 # [d]"
    by (simp add: py_upper_Cons)
  from upper_char_Q [OF assms(1) this]
  have c: "c = 81 \<or> c = 113" and u1: "py_upper uc t1 = [d]"
    by simp_all
  then obtain e t2 where t1: "t1 = e # t2"
    by (cases t1) (auto simp: py_upper_def)
  with u1 have "upper_char uc e @ py_upper uc t2 = d # []"
    by (simp add: py_upper_Cons)
  from upper_char_digit [OF assms(1) this assms(2)]
  have "e = d" and "py_upper uc t2 = []"
    by simp_all
  with assms(1) have "t2 = []"
    by (simp add: py_upper_Nil_iff)
  with t t1 c \<open>e = d\<close> show "t = [81, d] \<or> t = [113, d]"
    by auto
next
  assume "t = [81, d] \<or> t = [113, d]"
  with assms(2) show "py_upper uc t = [81, d]"
    by (auto simp: py_upper_def upper_char_def)
qed

section \<open>Facts about the classification rules\<close>

lemma classify_loop_commute:
  "classify_loop ls a b = classify_loop ls b a"
  by (induction ls) auto

lemma level_cases:
  "map_quartil_to_level uc q = None \<or> map_quartil_to_level uc q = Some (lit ''MB'') \<or>
   map_quartil_to_level uc q = Some (lit ''B'') \<or> map_quartil_to_level uc q = Some (lit ''R'') \<or>
   map_quartil_to_level uc q = Some (lit ''F'')"
  by (simp add: map_quartil_to_level_def Let_def)

lemma classify_loop_find:
  "classify_loop ls a b =
     (case find (\<lambda>lvl. a = Some lvl \<or> b = Some lvl) ls of
        Some lvl \<Rightarrow> lvl | None \<Rightarrow> sem_classificacao)"
  by (induction ls) auto

lemma classify_loop_unclassified:
  assumes "a = None \<or> a \<in> Some ` set ordem" "b = None \<or> b \<in> Some ` set ordem"
  shows "classify_loop ordem a b = sem_classificacao \<longleftrightarrow> a = None \<and> b = None"
  using assms by (auto simp: ordem_def sem_classificacao_def lit_def)

lemma classify_loop_best:
  assumes "a = None \<or> a \<in> Some ` set ordem" "b = None \<or> b \<in> Some ` set ordem"
  shows "classify_loop ordem a b = best_tier a b"
  using assms by (auto simp: ordem_def sem_classificacao_def lit_def tier_rank_def)

lemma level_range:
  "map_quartil_to_level uc q = None \<or> map_quartil_to_level uc q \<in> Some ` set ordem"
  using level_cases [of uc q] by (auto simp: ordem_def)

lemma classify_loop_same:
  "t \<in> set ls \<Longrightarrow> classify_loop ls (Some t) (Some t) = t"
  by (induction ls) auto

lemma classify_loop_none:
  "classify_loop ls None None = sem_classificacao"
  by (induction ls) auto

lemma classify_loop_range:
  "classify_loop ls a b \<in> set ls \<union> {sem_classificacao}"
  by (induction ls) auto

lemma classify_journal_range:
  "classify_journal uc a b \<in> set classes_order"
proof -
  have "set classes_order = set ordem \<union> {sem_classificacao}"
    by (simp add: classes_order_def ordem_def sem_classificacao_def insert_commute)
  then show ?thesis
    using classify_loop_range [of ordem "map_quartil_to_level uc a" "map_quartil_to_level uc b"]
    by (simp add: classify_journal_def Let_def)
qed

lemma quartile_text_iff:
  assumes "unicode_table uc" "d \<in> {49, 50, 51, 52}"
  shows "quartile_text d q \<longleftrightarrow> q \<noteq> PyNone \<and> py_upper uc (py_strip (py_str q)) = [81, d]"
proof -
  have sp: "\<not> py_isspace 81" "\<not> py_isspace 113" "\<not> py_isspace d"
    using assms(2) by (auto simp: py_isspace_def)
  have "(\<exists>l r c. py_str q = l @ [c, d] @ r \<and> list_all py_isspace l \<and> list_all py_isspace r \<and>
          (c = 81 \<or> c = 113))
        \<longleftrightarrow> py_strip (py_str q) = [81, d] \<or> py_strip (py_str q) = [113, d]"
    (is "?L \<longleftrightarrow> ?R")
  proof
    assume ?L
    then obtain l r c where q: "py_str q = l @ c # [] @ d # r"
      and l: "list_all py_isspace l" and r: "list_all py_isspace r" and c: "c = 81 \<or> c = 113"
      by auto
    from c sp have "\<not> py_isspace c" by auto
    from py_strip_padded [OF l r this sp(3), of "[]"] q c show ?R
      by auto
  next
    assume R: ?R
    obtain l r where q: "py_str q = l @ py_strip (py_str q) @ r"
      and l: "list_all py_isspace l" and r: "list_all py_isspace r"
      using py_strip_decomp [of "py_str q"] by blast
    from R obtain c where "py_strip (py_str q) = [c, d]" "c = 81 \<or> c = 113"
      by blast
    with q have "py_str q = l @ [c, d] @ r \<and> (c = 81 \<or> c = 113)"
      by simp
    with l r show ?L by blast
  qed
  then show ?thesis
    by (simp add: quartile_text_def py_upper_quartile [OF assms])
qed

lemma level_by_text:
  assumes "unicode_table uc"
  shows "map_quartil_to_level uc q =
     (if quartile_text 49 q then Some (lit ''MB'')
      else if quartile_text 50 q then Some (lit ''B'')
      else if quartile_text 51 q then Some (lit ''R'')
      else if quartile_text 52 q then Some (lit ''F'')
      else None)"
proof -
  have l: "lit ''Q1'' = [81, 49]" "lit ''Q2'' = [81, 50]" "lit ''Q3'' = [81, 51]"
    "lit ''Q4'' = [81, 52]"
    by (simp_all add: lit_def)
  show ?thesis
    by (simp add: map_quartil_to_level_def Let_def l quartile_text_iff [OF assms])
qed

lemma level_plain:
  "map_quartil_to_level uc PyNone = None"
  "map_quartil_to_level uc PyNaN = None"
  "map_quartil_to_level uc (PyStr []) = None"
  "map_quartil_to_level uc (PyStr (lit ''-'')) = None"
  "map_quartil_to_level uc (PyStr (lit ''N/A'')) = None"
  "map_quartil_to_level uc (PyStr (lit ''Q5'')) = None"
  by (simp_all add: map_quartil_to_level_def Let_def lit_def py_strip_def py_isspace_def
      py_upper_def upper_char_def)

lemma level_examples:
  "map_quartil_to_level (\<lambda>c. [c]) (PyStr (lit ''Q3'')) = Some (lit ''R'')"
  "map_quartil_to_level (\<lambda>c. [c]) (PyStr (lit ''Q1'')) = Some (lit ''MB'')"
  "map_quartil_to_level (\<lambda>c. [c]) (PyStr (lit '' q2'')) = Some (lit ''B'')"
  by (simp_all add: map_quartil_to_level_def Let_def lit_def py_strip_def py_isspace_def
      py_upper_def upper_char_def)




section \<open>Properties of the classification rules\<close>

text \<open>
  C1: \<open>classify_journal\<close> returns the first tier of the priority order MB, B, R, F that
  one of the two mapped levels equals, and the unclassified label when there is none.
  Equivalently it is the best of the two tiers the inputs imply on their own, and it is
  the unclassified label exactly when both inputs map to no tier.
\<close>

theorem classify_journal_first_in_order:
  "classify_journal uc jcr sjr =
     (case find (\<lambda>lvl. map_quartil_to_level uc jcr = Some lvl \<or>
                        map_quartil_to_level uc sjr = Some lvl) ordem of
        Some lvl \<Rightarrow> lvl | None \<Rightarrow> sem_classificacao) \<and>
   classify_journal uc jcr sjr =
     best_tier (map_quartil_to_level uc jcr) (map_quartil_to_level uc sjr) \<and>
   (classify_journal uc jcr sjr = sem_classificacao \<longleftrightarrow>
      map_quartil_to_level uc jcr = None \<and> map_quartil_to_level uc sjr = None)"
  by (simp add: classify_journal_def classify_loop_find [symmetric]
      classify_loop_best [OF level_range level_range]
      classify_loop_unclassified [OF level_range level_range, symmetric])

theorem classify_journal_first_in_order_witness:
  "classify_journal (\<lambda>c. [c]) (PyStr (lit ''Q3'')) (PyStr (lit ''Q1'')) = lit ''MB'' \<and>
   classify_journal (\<lambda>c. [c]) (PyStr (lit ''-'')) PyNone = sem_classificacao"
proof -
  have best: "best_tier (Some (lit ''R'')) (Some (lit ''MB'')) = lit ''MB''"
    by (simp add: tier_rank_def ordem_def lit_def)
  have "classify_journal (\<lambda>c. [c]) (PyStr (lit ''Q3'')) (PyStr (lit ''Q1'')) =
      best_tier (map_quartil_to_level (\<lambda>c. [c]) (PyStr (lit ''Q3'')))
        (map_quartil_to_level (\<lambda>c. [c]) (PyStr (lit ''Q1'')))"
    using classify_journal_first_in_order [of "\<lambda>c. [c]" "PyStr (lit ''Q3'')" "PyStr (lit ''Q1'')"]
    by blast
  then have 1: "classify_journal (\<lambda>c. [c]) (PyStr (lit ''Q3'')) (PyStr (lit ''Q1'')) = lit ''MB''"
    by (simp only: level_examples best)
  have "classify_journal (\<lambda>c. [c]) (PyStr (lit ''-'')) PyNone =
      best_tier (map_quartil_to_level (\<lambda>c. [c]) (PyStr (lit ''-'')))
        (map_quartil_to_level (\<lambda>c. [c]) PyNone)"
    using classify_journal_first_in_order [of "\<lambda>c. [c]" "PyStr (lit ''-'')" PyNone]
    by blast
  then have 2: "classify_journal (\<lambda>c. [c]) (PyStr (lit ''-'')) PyNone = sem_classificacao"
    by (simp only: level_plain best_tier.simps)
  from 1 2 show ?thesis by blast
qed

text \<open>
  C2: \<open>map_quartil_to_level\<close> trims whitespace and upper-cases the text of its input,
  and returns MB for Q1, B for Q2, R for Q3 and F for Q4 in any mix of case and
  surrounding whitespace; every other input gives \<open>None\<close>, among them \<open>None\<close> itself, an
  empty cell, the empty string and the tokens \<open>-\<close>, \<open>N/A\<close> and \<open>Q5\<close>.
\<close>

theorem map_quartil_to_level_spec:
  assumes "unicode_table uc"
  shows "map_quartil_to_level uc q =
     (if quartile_text 49 q then Some (lit ''MB'')
      else if quartile_text 50 q then Some (lit ''B'')
      else if quartile_text 51 q then Some (lit ''R'')
      else if quartile_text 52 q then Some (lit ''F'')
      else None) \<and>
   map_quartil_to_level uc PyNone = None \<and>
   map_quartil_to_level uc PyNaN = None \<and>
   map_quartil_to_level uc (PyStr []) = None \<and>
   map_quartil_to_level uc (PyStr (lit ''-'')) = None \<and>
   map_quartil_to_level uc (PyStr (lit ''N/A'')) = None \<and>
   map_quartil_to_level uc (PyStr (lit ''Q5'')) = None"
  using level_by_text [OF assms, of q] by (simp only: level_plain simp_thms)

theorem map_quartil_to_level_spec_witness:
  "unicode_table (\<lambda>c. [c]) \<and>
   quartile_text 49 (PyStr ([0xA0] @ lit ''q1 '')) \<and>
   map_quartil_to_level (\<lambda>c. [c]) (PyStr ([0xA0] @ lit ''q1 '')) = Some (lit ''MB'')"
proof -
  have t: "unicode_table (\<lambda>c. [c])"
    by (auto simp: unicode_table_def)
  have "lit ''q1 '' = [] @ [113, 49] @ [32]"
    by (simp add: lit_def)
  then have "py_str (PyStr ([0xA0] @ lit ''q1 '')) = [0xA0] @ [113, 49] @ [32]"
    by simp
  moreover have "list_all py_isspace [0xA0]" "list_all py_isspace [32]"
    by (simp_all add: py_isspace_def)
  ultimately have q: "quartile_text 49 (PyStr ([0xA0] @ lit ''q1 ''))"
    unfolding quartile_text_def by blast
  with map_quartil_to_level_spec [OF t, of "PyStr ([0xA0] @ lit ''q1 '')"] t show ?thesis
    by simp
qed

text \<open>
  C7: \<open>classify_journal\<close> is commutative: swapping the JCR and the SJR argument never
  changes the result.
\<close>

theorem classify_journal_commutative:
  "classify_journal uc a b = classify_journal uc b a"
  by (simp add: classify_journal_def classify_loop_commute)

text \<open>
  C8: with the same raw value under both sources, \<open>classify_journal\<close> returns the tier
  that \<open>map_quartil_to_level\<close> gives for it, and the unclassified label when that is
  \<open>None\<close>.
\<close>

theorem classify_journal_same:
  "classify_journal uc q q =
     (case map_quartil_to_level uc q of Some t \<Rightarrow> t | None \<Rightarrow> sem_classificacao)"
  using level_range [of uc q]
  by (auto simp: classify_journal_def Let_def classify_loop_same classify_loop_none)

theorem classify_journal_same_witness:
  "classify_journal (\<lambda>c. [c]) (PyStr (lit '' q2'')) (PyStr (lit '' q2'')) = lit ''B'' \<and>
   classify_journal (\<lambda>c. [c]) PyNaN PyNaN = sem_classificacao"
  using classify_journal_same [of "\<lambda>c. [c]" "PyStr (lit '' q2'')"]
    classify_journal_same [of "\<lambda>c. [c]" PyNaN]
  by (simp add: level_examples level_plain)




section \<open>Facts about the loader\<close>

lemma row_get_missing:
  "key \<notin> set cols \<Longrightarrow> row_get cols row key = PyNone"
  by (auto simp: row_get_def dest: map_of_SomeD set_zip_leftD split: option.splits)

lemma row_get_new:
  assumes "length row = length cols" "key \<notin> set cols"
  shows "row_get (cols @ [key]) (row @ [v]) key = v"
proof -
  have none: "map_of (zip cols row) key = None"
    using assms(2) by (auto simp: map_of_eq_None_iff dest: set_zip_leftD)
  show ?thesis
    using assms(1) by (simp add: row_get_def map_add_def none)
qed

lemma row_get_old:
  assumes "length row = length cols" "c \<in> set cols"
  shows "row_get (cols @ [key]) (row @ [v]) c = row_get cols row c"
proof -
  from assms obtain x where some: "map_of (zip cols row) c = Some x"
    by (metis map_of_zip_is_Some)
  show ?thesis
    using assms(1) by (simp add: row_get_def map_add_def some)
qed

lemma load_data_present:
  "classificacao \<in> set (columns df) \<Longrightarrow> load_data uc (Inr df) = Inr df"
  by (simp add: load_data_def)

lemma load_data_absent:
  "classificacao \<notin> set (columns df) \<Longrightarrow>
   load_data uc (Inr df) =
     Inr (df\<lparr>columns := columns df @ [classificacao],
             rows := map (\<lambda>row. row @ [PyStr (classify_journal uc
                            (row_get (columns df) row quartil_jcr)
                            (row_get (columns df) row sjr_quartil))]) (rows df)\<rparr>)"
  by (simp add: load_data_def)

lemma labels_distinct:
  "classificacao \<noteq> quartil_jcr" "classificacao \<noteq> sjr_quartil" "quartil_jcr \<noteq> sjr_quartil"
  "classificacao \<noteq> PyStr (lit ''Titulo_JCR'')" "quartil_jcr \<noteq> PyStr (lit ''Titulo_JCR'')"
  "sjr_quartil \<noteq> PyStr (lit ''Titulo_JCR'')"
  by (simp_all add: classificacao_def quartil_jcr_def sjr_quartil_def lit_def)

lemma classify_examples:
  "classify_journal (\<lambda>c. [c]) (PyStr (lit ''Q3'')) (PyStr (lit ''q1 '')) = lit ''MB''"
  "classify_journal (\<lambda>c. [c]) PyNaN (PyStr (lit ''-'')) = sem_classificacao"
  "classify_journal (\<lambda>c. [c]) (PyStr (lit ''Q1'')) (PyStr (lit ''Q1'')) = lit ''MB''"
  by (simp_all add: classify_journal_def map_quartil_to_level_def Let_def lit_def py_strip_def
      py_isspace_def py_upper_def upper_char_def ordem_def sem_classificacao_def)

section \<open>Properties of the loader\<close>

text \<open>
  A table with a title column only loads: no schema check stands between the read and
  the computed column.
\<close>

theorem load_data_schema_counterexample:
  "classificacao \<notin> set (columns tabela_sem_quartis) \<and>
   quartil_jcr \<notin> set (columns tabela_sem_quartis) \<and>
   sjr_quartil \<notin> set (columns tabela_sem_quartis) \<and>
   load_data (\<lambda>c. [c]) (Inr tabela_sem_quartis) =
     Inr \<lparr>columns = [PyStr (lit ''Titulo_JCR''), classificacao],
          rows = [[PyStr (lit ''Lancet''), PyStr sem_classificacao]]\<rparr>"
  by (simp add: tabela_sem_quartis_def labels_distinct load_data_def row_get_def
      classify_journal_def Let_def level_plain classify_loop_none)

text \<open>
  C3, as the code has it: a table with neither quartile column and no classification
  column does not make \<open>load_data\<close> fail. \<open>row.get\<close> answers \<open>None\<close> for a label the
  row does not have, so the loader raises nothing and returns the table with the
  classification column appended: the cells that were read are all kept, row by row,
  and the new cell of every row is the unclassified label.
\<close>

theorem load_data_no_schema_error:
  assumes "classificacao \<notin> set (columns df)"
    and "quartil_jcr \<notin> set (columns df)" and "sjr_quartil \<notin> set (columns df)"
  shows "(\<forall>e. load_data uc (Inr df) \<noteq> Inl e) \<and>
    (\<exists>t. load_data uc (Inr df) = Inr t \<and> columns t = columns df @ [classificacao] \<and>
       map butlast (rows t) = rows df \<and>
       rows t = map (\<lambda>row. row @ [PyStr sem_classificacao]) (rows df))"
  using assms
  by (simp add: load_data_absent row_get_missing classify_journal_def Let_def level_plain
      classify_loop_none comp_def)

theorem load_data_no_schema_error_witness:
  "\<exists>t. load_data (\<lambda>c. [c]) (Inr tabela_sem_quartis) = Inr t \<and>
     columns t = [PyStr (lit ''Titulo_JCR''), classificacao] \<and>
     rows t = [[PyStr (lit ''Lancet''), PyStr sem_classificacao]]"
  using load_data_no_schema_error [of tabela_sem_quartis "\<lambda>c. [c]"]
  by (simp add: tabela_sem_quartis_def labels_distinct) blast

text \<open>
  C4: when the table already has the classification column, \<open>load_data\<close> returns the
  table as it was read, that column included: nothing is recomputed or checked, even
  where a value disagrees with what \<open>classify_journal\<close> gives for the row's quartiles.
\<close>

theorem load_data_trusts_column:
  assumes "classificacao \<in> set (columns df)"
  shows "load_data uc (Inr df) = Inr df"
  using assms by (rule load_data_present)

theorem load_data_trusts_column_witness:
  "load_data (\<lambda>c. [c]) (Inr tabela_classificada) = Inr tabela_classificada \<and>
   row_get (columns tabela_classificada) (rows tabela_classificada ! 0) classificacao =
     PyStr (lit ''A1'') \<and>
   classify_journal (\<lambda>c. [c])
     (row_get (columns tabela_classificada) (rows tabela_classificada ! 0) quartil_jcr)
     (row_get (columns tabela_classificada) (rows tabela_classificada ! 0) sjr_quartil) =
     lit ''MB''"
  using load_data_trusts_column [of tabela_classificada "\<lambda>c. [c]"]
  by (simp add: tabela_classificada_def labels_distinct labels_distinct [symmetric] row_get_def
      classify_examples)

text \<open>
  C5: when the table has no classification column, \<open>load_data\<close> returns it with that
  column appended and nothing else changed: dropping the last cell of every row gives the
  rows that were read, every original label still reads the same cell, and the new cell
  of a row is \<open>classify_journal\<close> of what \<open>row.get\<close> finds under the two quartile labels
  (\<open>None\<close> for a label the table does not have).
\<close>

theorem load_data_backfill:
  assumes "classificacao \<notin> set (columns df)" "well_formed df"
  shows "\<exists>t. load_data uc (Inr df) = Inr t \<and>
    columns t = columns df @ [classificacao] \<and>
    map butlast (rows t) = rows df \<and>
    length (rows t) = length (rows df) \<and>
    (\<forall>i<length (rows df).
       row_get (columns t) (rows t ! i) classificacao =
         PyStr (classify_journal uc (row_get (columns df) (rows df ! i) quartil_jcr)
                  (row_get (columns df) (rows df ! i) sjr_quartil)) \<and>
       (\<forall>c\<in>set (columns df).
          row_get (columns t) (rows t ! i) c = row_get (columns df) (rows df ! i) c))"
proof -
  define t where "t = df\<lparr>columns := columns df @ [classificacao],
             rows := map (\<lambda>row. row @ [PyStr (classify_journal uc
                            (row_get (columns df) row quartil_jcr)
                            (row_get (columns df) row sjr_quartil))]) (rows df)\<rparr>"
  have l: "load_data uc (Inr df) = Inr t"
    unfolding t_def using assms(1) by (rule load_data_absent)
  have c: "columns t = columns df @ [classificacao]"
    by (simp add: t_def)
  have b: "map butlast (rows t) = rows df"
    by (simp add: t_def comp_def)
  have n: "length (rows t) = length (rows df)"
    by (simp add: t_def)
  have r: "row_get (columns t) (rows t ! i) classificacao =
         PyStr (classify_journal uc (row_get (columns df) (rows df ! i) quartil_jcr)
                  (row_get (columns df) (rows df ! i) sjr_quartil)) \<and>
       (\<forall>c\<in>set (columns df).
          row_get (columns t) (rows t ! i) c = row_get (columns df) (rows df ! i) c)"
    if i: "i < length (rows df)" for i
  proof -
    from assms(2) i have len: "length (rows df ! i) = length (columns df)"
      by (simp add: well_formed_def list_all_length)
    from i have ti: "rows t ! i = rows df ! i @ [PyStr (classify_journal uc
                            (row_get (columns df) (rows df ! i) quartil_jcr)
                            (row_get (columns df) (rows df ! i) sjr_quartil))]"
      by (simp add: t_def)
    show ?thesis
      unfolding c ti using len assms(1) by (simp add: row_get_new row_get_old)
  qed
  from l c b n r show ?thesis by blast
qed

theorem load_data_backfill_witness:
  "well_formed tabela_quartis \<and>
   (\<exists>t. load_data (\<lambda>c. [c]) (Inr tabela_quartis) = Inr t \<and>
      columns t = [quartil_jcr, sjr_quartil, classificacao] \<and>
      row_get (columns t) (rows t ! 0) classificacao = PyStr (lit ''MB'') \<and>
      row_get (columns t) (rows t ! 1) classificacao = PyStr sem_classificacao \<and>
      row_get (columns t) (rows t ! 0) sjr_quartil = PyStr (lit ''q1 ''))"
proof -
  have wf: "well_formed tabela_quartis"
    by (simp add: well_formed_def tabela_quartis_def)
  have ab: "classificacao \<notin> set (columns tabela_quartis)"
    by (simp add: tabela_quartis_def labels_distinct)
  from load_data_backfill [OF ab wf, of "\<lambda>c. [c]"] obtain t where
    l: "load_data (\<lambda>c. [c]) (Inr tabela_quartis) = Inr t"
    and c: "columns t = columns tabela_quartis @ [classificacao]"
    and r: "\<forall>i<length (rows tabela_quartis).
       row_get (columns t) (rows t ! i) classificacao =
         PyStr (classify_journal (\<lambda>c. [c])
                  (row_get (columns tabela_quartis) (rows tabela_quartis ! i) quartil_jcr)
                  (row_get (columns tabela_quartis) (rows tabela_quartis ! i) sjr_quartil)) \<and>
       (\<forall>c\<in>set (columns tabela_quartis).
          row_get (columns t) (rows t ! i) c =
          row_get (columns tabela_quartis) (rows tabela_quartis ! i) c)"
    by blast
  have n: "0 < length (rows tabela_quartis)" "1 < length (rows tabela_quartis)"
    and s: "sjr_quartil \<in> set (columns tabela_quartis)"
    by (simp_all add: tabela_quartis_def)
  have v: "row_get (columns tabela_quartis) (rows tabela_quartis ! 0) quartil_jcr = PyStr (lit ''Q3'')"
    "row_get (columns tabela_quartis) (rows tabela_quartis ! 0) sjr_quartil = PyStr (lit ''q1 '')"
    "row_get (columns tabela_quartis) (rows tabela_quartis ! Suc 0) quartil_jcr = PyNaN"
    "row_get (columns tabela_quartis) (rows tabela_quartis ! Suc 0) sjr_quartil = PyStr (lit ''-'')"
    by (simp_all add: tabela_quartis_def row_get_def labels_distinct labels_distinct [symmetric])
  from r n s
  have "row_get (columns t) (rows t ! 0) classificacao = PyStr (lit ''MB'')"
    "row_get (columns t) (rows t ! 1) classificacao = PyStr sem_classificacao"
    "row_get (columns t) (rows t ! 0) sjr_quartil = PyStr (lit ''q1 '')"
    by (simp_all add: v classify_examples)
  with l c wf show ?thesis
    by (simp add: tabela_quartis_def)
qed

text \<open>
  A classification column read from the file is returned as it is, here with the value
  \<open>A1\<close>, which is none of the five labels.
\<close>

theorem tier_tokens_counterexample:
  "load_data (\<lambda>c. [c]) (Inr tabela_classificada) = Inr tabela_classificada \<and>
   row_get (columns tabela_classificada) (rows tabela_classificada ! 0) classificacao =
     PyStr (lit ''A1'') \<and>
   lit ''A1'' \<notin> set classes_order"
  by (simp add: tabela_classificada_def labels_distinct labels_distinct [symmetric] row_get_def
      load_data_def classes_order_def) (simp add: lit_def)

text \<open>
  C6, as the code has it: every value \<open>classify_journal\<close> returns is one of the five
  labels, and so is every value of the classification column of the table \<open>load_data\<close>
  returns when the loader computes that column, that is, when the table read has none.
  A classification column that comes with the table is passed on unchecked.
\<close>

theorem tier_tokens:
  assumes "classificacao \<notin> set (columns df)" "well_formed df"
  shows "classify_journal uc a b \<in> set classes_order \<and>
    (\<exists>t. load_data uc (Inr df) = Inr t \<and>
       list_all (\<lambda>row. row_get (columns t) row classificacao \<in> PyStr ` set classes_order)
         (rows t))"
proof -
  let ?tier = "\<lambda>row. PyStr (classify_journal uc (row_get (columns df) row quartil_jcr)
                            (row_get (columns df) row sjr_quartil))"
  have "row_get (columns df @ [classificacao]) (row @ [?tier row]) classificacao
      \<in> PyStr ` set classes_order" if "row \<in> set (rows df)" for row
  proof -
    from assms(2) that have "length row = length (columns df)"
      by (simp add: well_formed_def list_all_iff)
    then show ?thesis
      using assms(1) by (simp add: row_get_new classify_journal_range)
  qed
  then show ?thesis
    using assms(1) by (simp add: load_data_absent classify_journal_range list_all_iff)
qed

theorem tier_tokens_witness:
  "well_formed tabela_quartis \<and>
   (\<exists>t. load_data (\<lambda>c. [c]) (Inr tabela_quartis) = Inr t \<and>
       list_all (\<lambda>row. row_get (columns t) row classificacao \<in> PyStr ` set classes_order)
         (rows t))"
proof -
  have wf: "well_formed tabela_quartis"
    by (simp add: well_formed_def tabela_quartis_def)
  have ab: "classificacao \<notin> set (columns tabela_quartis)"
    by (simp add: tabela_quartis_def labels_distinct)
  from tier_tokens [OF ab wf] wf show ?thesis
    by blast
qed

text \<open>
  C10: a table with no classification column loads even when both quartile columns are
  missing as well: every row gets the unclassified label and no error is raised.
\<close>

theorem load_data_no_columns:
  assumes "classificacao \<notin> set (columns df)"
    and "quartil_jcr \<notin> set (columns df)" and "sjr_quartil \<notin> set (columns df)"
  shows "load_data uc (Inr df) =
     Inr (df\<lparr>columns := columns df @ [classificacao],
             rows := map (\<lambda>row. row @ [PyStr sem_classificacao]) (rows df)\<rparr>)"
  using assms
  by (simp add: load_data_absent row_get_missing classify_journal_def Let_def level_plain
      classify_loop_none)

theorem load_data_no_columns_witness:
  "load_data (\<lambda>c. [c]) (Inr tabela_sem_quartis) =
     Inr (tabela_sem_quartis\<lparr>columns := [PyStr (lit ''Titulo_JCR''), classificacao],
            rows := [[PyStr (lit ''Lancet''), PyStr sem_classificacao]]\<rparr>)"
  using load_data_no_columns [of tabela_sem_quartis "\<lambda>c. [c]"]
  by (simp add: tabela_sem_quartis_def labels_distinct)

end
